theory Spec2Isabelle
  imports Main
begin

section \<open>Data model\<close>

text \<open>
  The service of \<^verbatim>\<open>app/main.py\<close> keeps two tables. Their declarations
  (\<^verbatim>\<open>app/models.py\<close>) are not among the sources, so the columns are the ones the
  handlers read and write, with the persisted schema of the specification:
  Users(id, username, hashed_password) and Tasks(id, title, description, completed,
  owner_id). A table is the list of its rows in insertion order.
\<close>

record user =
  user_id :: int
  username :: string
  hashed_password :: string

record todo =
  todo_id :: int
  title :: string
  description :: "string option"
  completed :: bool
  owner_id :: int

record db =
  users :: "user list"
  todos :: "todo list"

text \<open>
  Every \<^verbatim>\<open>raise HTTPException(status_code=..., detail=...)\<close> of the source is a value;
  \<open>RequestValidationError\<close> is the rejection of a request body by the schema
  classes of \<^verbatim>\<open>app/schemas.py\<close> before a handler runs.
\<close>

datatype error =
  HTTPException (status_code: nat) (detail: string)
| RequestValidationError

type_synonym 'a result = "error + 'a"

subsection \<open>Schemas (app/schemas.py)\<close>

record UserCreate =
  uc_username :: string
  uc_password :: string

record TodoCreate =
  tc_title :: string
  tc_description :: "string option"

record TodoUpdate =
  tu_title :: "string option"
  tu_description :: "string option"
  tu_completed :: "bool option"

text \<open>
  A request body before validation: each declared key is absent, an explicit JSON
  \<^verbatim>\<open>null\<close>, or a value of the declared type. Any further keys of the body are kept in
  \<open>extra\<close>; the schema classes declare no policy for them, so they are dropped.
\<close>

datatype 'a field = Absent | Null | Given 'a

record create_body =
  cb_title :: "string field"
  cb_description :: "string field"
  cb_extra :: "(string \<times> string) list"

record update_body =
  ub_title :: "string field"
  ub_description :: "string field"
  ub_completed :: "bool field"
  ub_extra :: "(string \<times> string) list"

text \<open>A field declared \<^verbatim>\<open>T | None = None\<close>: absent and null both give \<^verbatim>\<open>None\<close>.\<close>

fun optional_field :: "'a field \<Rightarrow> 'a option" where
  "optional_field Absent = None"
| "optional_field Null = None"
| "optional_field (Given v) = Some v"

text \<open>A field declared \<^verbatim>\<open>T\<close> with no default: it must be present and not null.\<close>

fun required_field :: "'a field \<Rightarrow> 'a result" where
  "required_field Absent = Inl RequestValidationError"
| "required_field Null = Inl RequestValidationError"
| "required_field (Given v) = Inr v"

definition validate_TodoCreate :: "create_body \<Rightarrow> TodoCreate result" where
  "validate_TodoCreate body =
     (case required_field (cb_title body) of
        Inl e \<Rightarrow> Inl e
      | Inr t \<Rightarrow> Inr \<lparr>tc_title = t, tc_description = optional_field (cb_description body)\<rparr>)"

definition validate_TodoUpdate :: "update_body \<Rightarrow> TodoUpdate" where
  "validate_TodoUpdate body =
     \<lparr>tu_title = optional_field (ub_title body),
      tu_description = optional_field (ub_description body),
      tu_completed = optional_field (ub_completed body)\<rparr>"

section \<open>The auth module\<close>

text \<open>
  \<^verbatim>\<open>app/auth.py\<close> is not among the sources. Password hashing is a parameter of the
  model: \<open>hash_password\<close> is the (salted) digest as computed at the call and
  \<open>verify_password plain hashed\<close> the check of a plaintext against a stored digest.
  The signing primitive, the secret key and the token lifetime are parameters too.
\<close>

record auth =
  SECRET_KEY :: string
  ACCESS_TOKEN_EXPIRE_MINUTES :: int
  sign :: "string \<Rightarrow> string \<Rightarrow> int \<Rightarrow> string"
  hash_password :: "string \<Rightarrow> string"
  verify_password :: "string \<Rightarrow> string \<Rightarrow> bool"

text \<open>
  A bearer token as the Token Service sees it: text that does not parse as a claim set,
  or a claim set (subject, absolute expiry in seconds) with its signature.
\<close>

datatype token =
  Malformed string
| Signed (tok_sub: string) (tok_exp: int) (tok_sig: string)

text \<open>
  Modelled from the spec: \<^verbatim>\<open>auth.create_access_token\<close> is missing from the sources.
  The spec's \<^verbatim>\<open>issue(subject)\<close> produces a signed token embedding the subject and an
  absolute expiry, a fixed lifetime after the time of issue, signed with the process-wide
  secret key.
\<close>

definition create_access_token :: "auth \<Rightarrow> int \<Rightarrow> string \<Rightarrow> token" where
  "create_access_token a now subject =
     (let expire = now + 60 * ACCESS_TOKEN_EXPIRE_MINUTES a
      in Signed subject expire (sign a (SECRET_KEY a) subject expire))"

text \<open>
  Modelled from the spec: \<^verbatim>\<open>auth.decode_token\<close> is missing from the sources.
  The spec's \<^verbatim>\<open>verify(token)\<close> returns the subject and fails with InvalidToken (401) if
  the token is malformed, its signature is invalid, or its expiry timestamp has passed;
  it consults no store.
\<close>

definition decode_token :: "auth \<Rightarrow> int \<Rightarrow> token \<Rightarrow> string result" where
  "decode_token a now tok =
     (case tok of
        Malformed _ \<Rightarrow> Inl (HTTPException 401 ''Invalid token'')
      | Signed subject expire sg \<Rightarrow>
          if sg \<noteq> sign a (SECRET_KEY a) subject expire
            then Inl (HTTPException 401 ''Invalid token'')
          else if expire < now then Inl (HTTPException 401 ''Invalid token'')
          else Inr subject)"

section \<open>Storage\<close>

text \<open>
  The storage engine is external. \<^verbatim>\<open>.filter(p).first()\<close> is \<^const>\<open>find\<close> and
  \<^verbatim>\<open>.filter(p).all()\<close> is \<^const>\<open>filter\<close> over the rows. A row added without a
  primary key gets a key greater than every key of its table. An object changed or
  deleted through the session is written back by its primary key.
\<close>

definition next_id :: "int list \<Rightarrow> int" where
  "next_id ids = foldr max ids 0 + 1"

definition wf_db :: "db \<Rightarrow> bool" where
  "wf_db d \<longleftrightarrow>
     distinct (map user_id (users d)) \<and>
     distinct (map username (users d)) \<and>
     distinct (map todo_id (todos d))"

section \<open>Handlers (app/main.py)\<close>

text \<open>
  A handler takes the database and returns its result together with the database after
  the request; where it raises, the returned database is the one the session held when
  the exception left the handler.
\<close>

definition get_current_user :: "auth \<Rightarrow> int \<Rightarrow> token \<Rightarrow> db \<Rightarrow> user result" where
  "get_current_user a now tok d =
     (case decode_token a now tok of
        Inl e \<Rightarrow> Inl e
      | Inr name \<Rightarrow>
          (case find (\<lambda>u. username u = name) (users d) of
             None \<Rightarrow> Inl (HTTPException 401 ''User not found'')
           | Some u \<Rightarrow> Inr u))"

definition register :: "auth \<Rightarrow> UserCreate \<Rightarrow> db \<Rightarrow> string result \<times> db" where
  "register a u d =
     (case find (\<lambda>x. username x = uc_username u) (users d) of
        Some existing \<Rightarrow> (Inl (HTTPException 400 ''Username already exists''), d)
      | None \<Rightarrow>
          (let new_user = \<lparr>user_id = next_id (map user_id (users d)),
                           username = uc_username u,
                           hashed_password = hash_password a (uc_password u)\<rparr>
           in (Inr ''User created'', d\<lparr>users := users d @ [new_user]\<rparr>)))"

record Token =
  access_token :: token
  token_type :: string

record login_form =
  form_username :: string
  form_password :: string

definition login :: "auth \<Rightarrow> int \<Rightarrow> login_form \<Rightarrow> db \<Rightarrow> Token result" where
  "login a now form_data d =
     (case find (\<lambda>x. username x = form_username form_data) (users d) of
        None \<Rightarrow> Inl (HTTPException 401 ''Invalid credentials'')
      | Some u \<Rightarrow>
          if \<not> verify_password a (form_password form_data) (hashed_password u)
            then Inl (HTTPException 401 ''Invalid credentials'')
          else Inr \<lparr>access_token = create_access_token a now (username u),
                    token_type = ''bearer''\<rparr>)"

text \<open>
  \<^verbatim>\<open>models.Todo(**todo.dict(), owner_id=current_user.id)\<close>: title and description come
  from the validated body, the owner from the authenticated user; \<open>completed\<close> is not
  passed and takes the column default, false.
\<close>

definition create_todo :: "TodoCreate \<Rightarrow> db \<Rightarrow> user \<Rightarrow> todo \<times> db" where
  "create_todo t d current_user =
     (let new_todo = \<lparr>todo_id = next_id (map todo_id (todos d)),
                      title = tc_title t,
                      description = tc_description t,
                      completed = False,
                      owner_id = user_id current_user\<rparr>
      in (new_todo, d\<lparr>todos := todos d @ [new_todo]\<rparr>))"

definition get_todos :: "db \<Rightarrow> user \<Rightarrow> todo list" where
  "get_todos d current_user = filter (\<lambda>t. owner_id t = user_id current_user) (todos d)"

definition apply_update :: "TodoUpdate \<Rightarrow> todo \<Rightarrow> todo" where
  "apply_update u db_todo =
     (let t1 = (case tu_title u of None \<Rightarrow> db_todo | Some x \<Rightarrow> db_todo\<lparr>title := x\<rparr>);
          t2 = (case tu_description u of None \<Rightarrow> t1 | Some x \<Rightarrow> t1\<lparr>description := Some x\<rparr>);
          t3 = (case tu_completed u of None \<Rightarrow> t2 | Some x \<Rightarrow> t2\<lparr>completed := x\<rparr>)
      in t3)"

definition update_todo :: "int \<Rightarrow> TodoUpdate \<Rightarrow> db \<Rightarrow> user \<Rightarrow> todo result \<times> db" where
  "update_todo tid u d current_user =
     (case find (\<lambda>t. todo_id t = tid \<and> owner_id t = user_id current_user) (todos d) of
        None \<Rightarrow> (Inl (HTTPException 404 ''Todo not found''), d)
      | Some db_todo \<Rightarrow>
          (let new_todo = apply_update u db_todo
           in (Inr new_todo,
               d\<lparr>todos := map (\<lambda>t. if todo_id t = todo_id db_todo then apply_update u t else t)
                                (todos d)\<rparr>)))"

definition delete_todo :: "int \<Rightarrow> db \<Rightarrow> user \<Rightarrow> string result \<times> db" where
  "delete_todo tid d current_user =
     (case find (\<lambda>t. todo_id t = tid \<and> owner_id t = user_id current_user) (todos d) of
        None \<Rightarrow> (Inl (HTTPException 404 ''Todo not found''), d)
      | Some db_todo \<Rightarrow>
          (Inr ''Todo deleted'',
           d\<lparr>todos := filter (\<lambda>t. todo_id t \<noteq> todo_id db_todo) (todos d)\<rparr>))"

subsection \<open>Protected routes\<close>

text \<open>
  The framework resolves \<^verbatim>\<open>Depends(get_current_user)\<close> before the body is validated
  and before the handler is called: a request without bearer credentials is refused by
  the OAuth2 scheme, an exception of \<open>get_current_user\<close> ends the request, a body
  that fails its schema ends it next, and only then does the handler run.
\<close>

definition authenticate :: "auth \<Rightarrow> int \<Rightarrow> token option \<Rightarrow> db \<Rightarrow> user result" where
  "authenticate a now credentials d =
     (case credentials of
        None \<Rightarrow> Inl (HTTPException 401 ''Not authenticated'')
      | Some tok \<Rightarrow> get_current_user a now tok d)"

definition route_create_todo ::
  "auth \<Rightarrow> int \<Rightarrow> token option \<Rightarrow> create_body \<Rightarrow> db \<Rightarrow> todo result \<times> db" where
  "route_create_todo a now credentials body d =
     (case authenticate a now credentials d of
        Inl e \<Rightarrow> (Inl e, d)
      | Inr current_user \<Rightarrow>
          (case validate_TodoCreate body of
             Inl e \<Rightarrow> (Inl e, d)
           | Inr t \<Rightarrow> (case create_todo t d current_user of (r, d') \<Rightarrow> (Inr r, d'))))"

definition route_get_todos ::
  "auth \<Rightarrow> int \<Rightarrow> token option \<Rightarrow> db \<Rightarrow> todo list result \<times> db" where
  "route_get_todos a now credentials d =
     (case authenticate a now credentials d of
        Inl e \<Rightarrow> (Inl e, d)
      | Inr current_user \<Rightarrow> (Inr (get_todos d current_user), d))"

definition route_update_todo ::
  "auth \<Rightarrow> int \<Rightarrow> token option \<Rightarrow> int \<Rightarrow> update_body \<Rightarrow> db \<Rightarrow> todo result \<times> db" where
  "route_update_todo a now credentials tid body d =
     (case authenticate a now credentials d of
        Inl e \<Rightarrow> (Inl e, d)
      | Inr current_user \<Rightarrow> update_todo tid (validate_TodoUpdate body) d current_user)"

definition route_delete_todo ::
  "auth \<Rightarrow> int \<Rightarrow> token option \<Rightarrow> int \<Rightarrow> db \<Rightarrow> string result \<times> db" where
  "route_delete_todo a now credentials tid d =
     (case authenticate a now credentials d of
        Inl e \<Rightarrow> (Inl e, d)
      | Inr current_user \<Rightarrow> delete_todo tid d current_user)"

subsection \<open>Concrete values used in the examples\<close>

definition demo_auth :: auth where
  "demo_auth =
     \<lparr>SECRET_KEY = ''k'',
      ACCESS_TOKEN_EXPIRE_MINUTES = 30,
      sign = (\<lambda>key subject expire. key @ subject),
      hash_password = (\<lambda>p. ''#'' @ p),
      verify_password = (\<lambda>p h. h = ''#'' @ p)\<rparr>"

definition alice :: user where
  "alice = \<lparr>user_id = 1, username = ''alice'', hashed_password = ''#pw1''\<rparr>"

definition bob :: user where
  "bob = \<lparr>user_id = 2, username = ''bob'', hashed_password = ''#pw2''\<rparr>"

definition milk :: todo where
  "milk = \<lparr>todo_id = 1, title = ''Buy milk'', description = Some ''2 litres'',
           completed = False, owner_id = 1\<rparr>"

definition demo_db :: db where
  "demo_db = \<lparr>users = [alice, bob], todos = [milk]\<rparr>"

section \<open>Facts about the storage model\<close>

lemma foldr_max_upper: "i \<in> set ids \<Longrightarrow> i \<le> foldr max ids (b::int)"
  by (induction ids) auto

lemma next_id_fresh: "next_id ids \<notin> set ids"
proof
  assume "next_id ids \<in> set ids"
  then have "next_id ids \<le> foldr max ids 0" by (rule foldr_max_upper)
  then show False by (simp add: next_id_def)
qed

lemma find_username_append:
  "find (\<lambda>x. username x = n) us = None \<Longrightarrow> username v = n \<Longrightarrow>
   find (\<lambda>x. username x = n) (us @ [v]) = Some v"
  by (induction us) (auto split: if_splits)

lemma find_username_None:
  "find (\<lambda>x. username x = n) us = None \<longleftrightarrow> n \<notin> username ` set us"
  by (induction us) auto

lemma find_todo_None:
  "find (\<lambda>t. todo_id t = tid \<and> owner_id t = uid) ts = None \<longleftrightarrow>
   \<not> (\<exists>t\<in>set ts. todo_id t = tid \<and> owner_id t = uid)"
  by (induction ts) auto

lemma find_todo_Some:
  "find (\<lambda>t. todo_id t = tid \<and> owner_id t = uid) ts = Some x \<Longrightarrow>
   x \<in> set ts \<and> todo_id x = tid \<and> owner_id x = uid"
  by (induction ts) (auto split: if_splits)

lemma todo_id_unique:
  "distinct (map todo_id ts) \<Longrightarrow> x \<in> set ts \<Longrightarrow> y \<in> set ts \<Longrightarrow> todo_id x = todo_id y \<Longrightarrow> x = y"
  by (auto simp: distinct_map dest: inj_onD)

lemma find_todo_unique:
  assumes "distinct (map todo_id ts)" and "t \<in> set ts"
  shows "find (\<lambda>x. todo_id x = todo_id t \<and> owner_id x = owner_id t) ts = Some t"
proof (cases "find (\<lambda>x. todo_id x = todo_id t \<and> owner_id x = owner_id t) ts")
  case None
  with assms(2) show ?thesis by (auto simp: find_todo_None)
next
  case (Some x)
  then have "x \<in> set ts" and "todo_id x = todo_id t"
    by (auto dest: find_todo_Some)
  with assms have "x = t" by (auto dest: todo_id_unique)
  with Some show ?thesis by simp
qed

lemma apply_update_keys:
  "todo_id (apply_update u t) = todo_id t" "owner_id (apply_update u t) = owner_id t"
  by (simp_all add: apply_update_def Let_def split: option.splits)

lemma wf_db_register: "wf_db d \<Longrightarrow> wf_db (snd (register a u d))"
  using next_id_fresh [of "map user_id (users d)"]
  by (auto simp: wf_db_def register_def Let_def find_username_None split: option.splits)

lemma wf_db_create_todo: "wf_db d \<Longrightarrow> wf_db (snd (create_todo t d cu))"
  using next_id_fresh [of "map todo_id (todos d)"]
  by (auto simp: wf_db_def create_todo_def Let_def)

lemma wf_db_update_todo: "wf_db d \<Longrightarrow> wf_db (snd (update_todo tid u d cu))"
proof -
  have "todo_id \<circ> (\<lambda>t. if todo_id t = k then apply_update u t else t) = todo_id" for k
    by (auto simp: fun_eq_iff apply_update_keys)
  then show "wf_db d \<Longrightarrow> wf_db (snd (update_todo tid u d cu))"
    by (simp add: wf_db_def update_todo_def Let_def split: option.splits)
qed

lemma wf_db_delete_todo: "wf_db d \<Longrightarrow> wf_db (snd (delete_todo tid d cu))"
  by (simp add: wf_db_def delete_todo_def distinct_map_filter split: option.splits)

lemma wf_db_empty: "wf_db \<lparr>users = [], todos = []\<rparr>"
  by (simp add: wf_db_def)

lemma wf_db_demo: "wf_db demo_db"
  by (simp add: wf_db_def demo_db_def alice_def bob_def milk_def)

lemma update_todo_owned:
  assumes "wf_db d" and "t \<in> set (todos d)" and "todo_id t = tid" and "owner_id t = user_id cu"
  shows "update_todo tid u d cu =
           (Inr (apply_update u t),
            d\<lparr>todos := map (\<lambda>r. if todo_id r = tid then apply_update u t else r) (todos d)\<rparr>)"
proof -
  from assms(1) have dist: "distinct (map todo_id (todos d))"
    by (simp add: wf_db_def)
  from dist assms(2)
  have "find (\<lambda>x. todo_id x = todo_id t \<and> owner_id x = owner_id t) (todos d) = Some t"
    by (rule find_todo_unique)
  then have found: "find (\<lambda>x. todo_id x = tid \<and> owner_id x = user_id cu) (todos d) = Some t"
    by (simp add: assms(3,4))
  have "map (\<lambda>r. if todo_id r = todo_id t then apply_update u r else r) (todos d) =
        map (\<lambda>r. if todo_id r = tid then apply_update u t else r) (todos d)"
  proof (rule map_cong [OF refl])
    fix r assume "r \<in> set (todos d)"
    with dist assms(2) have "todo_id r = todo_id t \<Longrightarrow> r = t"
      by (auto dest: todo_id_unique)
    then show "(if todo_id r = todo_id t then apply_update u r else r) =
               (if todo_id r = tid then apply_update u t else r)"
      using assms(3) by auto
  qed
  with found show ?thesis
    by (simp add: update_todo_def Let_def)
qed

lemma apply_update_fields:
  "apply_update u t =
     t\<lparr>title := (case tu_title u of Some x \<Rightarrow> x | None \<Rightarrow> title t),
       description := (case tu_description u of Some x \<Rightarrow> Some x | None \<Rightarrow> description t),
       completed := (case tu_completed u of Some x \<Rightarrow> x | None \<Rightarrow> completed t)\<rparr>"
  by (simp add: apply_update_def Let_def split: option.splits)

lemma optional_field_case:
  "(case optional_field f of Some x \<Rightarrow> g x | None \<Rightarrow> z) =
   (case f of Given x \<Rightarrow> g x | Absent \<Rightarrow> z | Null \<Rightarrow> z)"
  by (cases f) simp_all

section \<open>Registration and login\<close>

text \<open>
  C4. Registration fails with 400 (duplicate username) exactly when a user whose
  username is character for character the requested one is already stored, and then
  the store is unchanged; whatever the first outcome, registering the same username a
  second time fails.
\<close>

theorem register_duplicate:
  "(uc_username u \<in> username ` set (users d) \<longrightarrow>
      register a u d = (Inl (HTTPException 400 ''Username already exists''), d)) \<and>
   (uc_username u \<notin> username ` set (users d) \<longrightarrow> fst (register a u d) = Inr ''User created'') \<and>
   (uc_username u2 = uc_username u \<longrightarrow>
      fst (register a2 u2 (snd (register a u d))) =
        Inl (HTTPException 400 ''Username already exists''))"
proof (intro conjI impI)
  assume "uc_username u \<in> username ` set (users d)"
  then obtain x where "find (\<lambda>x. username x = uc_username u) (users d) = Some x"
    by (cases "find (\<lambda>x. username x = uc_username u) (users d)") (auto simp: find_username_None)
  then show "register a u d = (Inl (HTTPException 400 ''Username already exists''), d)"
    by (simp add: register_def)
next
  assume "uc_username u \<notin> username ` set (users d)"
  then have "find (\<lambda>x. username x = uc_username u) (users d) = None"
    by (simp add: find_username_None)
  then show "fst (register a u d) = Inr ''User created''"
    by (simp add: register_def Let_def)
next
  assume same: "uc_username u2 = uc_username u"
  have "\<exists>x. find (\<lambda>x. username x = uc_username u) (users (snd (register a u d))) = Some x"
  proof (cases "find (\<lambda>x. username x = uc_username u) (users d)")
    case None
    then show ?thesis
      by (simp add: register_def Let_def find_username_append)
  next
    case (Some x)
    then show ?thesis by (simp add: register_def)
  qed
  then show "fst (register a2 u2 (snd (register a u d))) =
               Inl (HTTPException 400 ''Username already exists'')"
    using same by (auto simp: register_def)
qed

theorem register_duplicate_witness:
  "register demo_auth \<lparr>uc_username = ''alice'', uc_password = ''x''\<rparr> demo_db =
     (Inl (HTTPException 400 ''Username already exists''), demo_db) \<and>
   fst (register demo_auth \<lparr>uc_username = ''Alice'', uc_password = ''x''\<rparr> demo_db) =
     Inr ''User created'' \<and>
   fst (register demo_auth \<lparr>uc_username = ''Alice'', uc_password = ''y''\<rparr>
         (snd (register demo_auth \<lparr>uc_username = ''Alice'', uc_password = ''x''\<rparr> demo_db))) =
     Inl (HTTPException 400 ''Username already exists'')"
  using register_duplicate [of "\<lparr>uc_username = ''alice'', uc_password = ''x''\<rparr>" demo_db
                               demo_auth "\<lparr>uc_username = ''alice'', uc_password = ''x''\<rparr>" demo_auth]
        register_duplicate [of "\<lparr>uc_username = ''Alice'', uc_password = ''x''\<rparr>" demo_db
                               demo_auth "\<lparr>uc_username = ''Alice'', uc_password = ''y''\<rparr>" demo_auth]
  by (simp add: demo_db_def alice_def bob_def)

text \<open>
  C5. After a successful registration of \<open>u\<close> with password \<open>p\<close>, a login with
  \<open>u\<close> and \<open>p\<close> returns a token of type bearer, provided the password check accepts
  \<open>p\<close> against the digest that was stored; a login with a password that the check
  rejects against that digest fails with 401, and so does a login for a username that
  is not stored.
\<close>

theorem register_login_roundtrip:
  assumes "register a \<lparr>uc_username = u, uc_password = p\<rparr> d = (Inr m, d')"
  shows "(verify_password a p (hash_password a p) \<longrightarrow>
            login a now \<lparr>form_username = u, form_password = p\<rparr> d' =
              Inr \<lparr>access_token = create_access_token a now u, token_type = ''bearer''\<rparr>) \<and>
         (\<not> verify_password a p' (hash_password a p) \<longrightarrow>
            login a now \<lparr>form_username = u, form_password = p'\<rparr> d' =
              Inl (HTTPException 401 ''Invalid credentials'')) \<and>
         (n \<notin> username ` set (users d') \<longrightarrow>
            login a now \<lparr>form_username = n, form_password = q\<rparr> d' =
              Inl (HTTPException 401 ''Invalid credentials''))"
proof -
  let ?new = "\<lparr>user_id = next_id (map user_id (users d)), username = u,
               hashed_password = hash_password a p\<rparr>"
  from assms have none: "find (\<lambda>x. username x = u) (users d) = None"
    by (auto simp: register_def split: option.splits)
  with assms have d': "users d' = users d @ [?new]"
    by (auto simp: register_def Let_def)
  from none have found: "find (\<lambda>x. username x = u) (users d') = Some ?new"
    unfolding d' by (rule find_username_append) simp
  have unknown: "n \<notin> username ` set (users d') \<Longrightarrow> find (\<lambda>x. username x = n) (users d') = None"
    by (simp add: find_username_None)
  show ?thesis
    using found unknown by (simp add: login_def)
qed

theorem register_login_roundtrip_witness:
  "login demo_auth 1000 \<lparr>form_username = ''carol'', form_password = ''pw3''\<rparr>
     (snd (register demo_auth \<lparr>uc_username = ''carol'', uc_password = ''pw3''\<rparr> demo_db)) =
     Inr \<lparr>access_token = Signed ''carol'' 2800 ''kcarol'', token_type = ''bearer''\<rparr> \<and>
   login demo_auth 1000 \<lparr>form_username = ''carol'', form_password = ''wrong''\<rparr>
     (snd (register demo_auth \<lparr>uc_username = ''carol'', uc_password = ''pw3''\<rparr> demo_db)) =
     Inl (HTTPException 401 ''Invalid credentials'') \<and>
   login demo_auth 1000 \<lparr>form_username = ''dave'', form_password = ''pw3''\<rparr>
     (snd (register demo_auth \<lparr>uc_username = ''carol'', uc_password = ''pw3''\<rparr> demo_db)) =
     Inl (HTTPException 401 ''Invalid credentials'')"
proof -
  let ?d' = "demo_db\<lparr>users := users demo_db @
               [\<lparr>user_id = 3, username = ''carol'', hashed_password = ''#pw3''\<rparr>]\<rparr>"
  have reg: "register demo_auth \<lparr>uc_username = ''carol'', uc_password = ''pw3''\<rparr> demo_db =
               (Inr ''User created'', ?d')"
    by (simp add: register_def demo_db_def alice_def bob_def demo_auth_def next_id_def Let_def)
  have tok: "create_access_token demo_auth 1000 ''carol'' = Signed ''carol'' 2800 ''kcarol''"
    by (simp add: create_access_token_def demo_auth_def Let_def)
  have ok: "verify_password demo_auth ''pw3'' (hash_password demo_auth ''pw3'')"
    and bad: "\<not> verify_password demo_auth ''wrong'' (hash_password demo_auth ''pw3'')"
    by (simp_all add: demo_auth_def)
  have unknown: "''dave'' \<notin> username ` set (users ?d')"
    by (simp add: demo_db_def alice_def bob_def)
  from register_login_roundtrip [OF reg, of 1000 "''wrong''" "''dave''" "''pw3''"] ok bad unknown
  show ?thesis
    by (simp only: reg snd_conv tok simp_thms)
qed

text \<open>
  C9. A successful registration appends exactly one user row; its password column
  holds the digest \<open>hash_password\<close> of the password, the password enters the stored
  state through that digest alone (two passwords with one digest leave the same
  store), and the task table is untouched.
\<close>

theorem register_stores_hash:
  assumes "register a u d = (Inr m, d')"
  shows "users d' = users d @ [\<lparr>user_id = next_id (map user_id (users d)),
                                username = uc_username u,
                                hashed_password = hash_password a (uc_password u)\<rparr>] \<and>
         length (users d') = length (users d) + 1 \<and>
         todos d' = todos d \<and>
         (hash_password a (uc_password u) \<noteq> uc_password u \<longrightarrow>
            hashed_password (last (users d')) \<noteq> uc_password u) \<and>
         (hash_password a p' = hash_password a (uc_password u) \<longrightarrow>
            register a (u\<lparr>uc_password := p'\<rparr>) d = (Inr m, d'))"
proof -
  from assms have none: "find (\<lambda>x. username x = uc_username u) (users d) = None"
    by (auto simp: register_def split: option.splits)
  with assms have m: "m = ''User created''"
    and d': "d' = d\<lparr>users := users d @ [\<lparr>user_id = next_id (map user_id (users d)),
                                          username = uc_username u,
                                          hashed_password = hash_password a (uc_password u)\<rparr>]\<rparr>"
    by (auto simp: register_def Let_def)
  show ?thesis
    using none by (simp add: d' m register_def Let_def)
qed

theorem register_stores_hash_witness:
  "users (snd (register demo_auth \<lparr>uc_username = ''carol'', uc_password = ''pw3''\<rparr> demo_db)) =
     [alice, bob, \<lparr>user_id = 3, username = ''carol'', hashed_password = ''#pw3''\<rparr>] \<and>
   todos (snd (register demo_auth \<lparr>uc_username = ''carol'', uc_password = ''pw3''\<rparr> demo_db)) =
     [milk]"
proof -
  let ?d' = "demo_db\<lparr>users := users demo_db @
               [\<lparr>user_id = 3, username = ''carol'', hashed_password = ''#pw3''\<rparr>]\<rparr>"
  have reg: "register demo_auth \<lparr>uc_username = ''carol'', uc_password = ''pw3''\<rparr> demo_db =
               (Inr ''User created'', ?d')"
    by (simp add: register_def demo_db_def alice_def bob_def demo_auth_def next_id_def Let_def)
  show ?thesis
    using register_stores_hash [OF reg, of "''pw3''"]
    by (simp add: reg demo_db_def)
qed

section \<open>Authentication\<close>

text \<open>
  C7. \<open>get_current_user\<close> fails with status 401 whenever the token does not verify
  (it is malformed, its signature is not the one the secret key gives, or its expiry
  lies before the current time) and whenever the verified subject is not the username
  of a stored user; a request without credentials is refused with 401 as well.
\<close>

theorem get_current_user_unauthorized:
  "(decode_token a now tok = Inl e \<longrightarrow>
      get_current_user a now tok d = Inl e \<and> status_code e = 401) \<and>
   (decode_token a now tok = Inr n \<and> n \<notin> username ` set (users d) \<longrightarrow>
      get_current_user a now tok d = Inl (HTTPException 401 ''User not found'')) \<and>
   (\<exists>e. get_current_user a now (Malformed raw) d = Inl e \<and> status_code e = 401) \<and>
   (sg \<noteq> sign a (SECRET_KEY a) s ex \<longrightarrow>
      (\<exists>e. get_current_user a now (Signed s ex sg) d = Inl e \<and> status_code e = 401)) \<and>
   (ex < now \<longrightarrow>
      (\<exists>e. get_current_user a now (Signed s ex sg) d = Inl e \<and> status_code e = 401)) \<and>
   (\<exists>e. authenticate a now None d = Inl e \<and> status_code e = 401)"
proof -
  have failed: "get_current_user a now tok d = Inl e \<and> status_code e = 401"
    if "decode_token a now tok = Inl e"
    using that
    by (auto simp: get_current_user_def decode_token_def split: token.splits if_splits)
  have unknown: "get_current_user a now tok d = Inl (HTTPException 401 ''User not found'')"
    if h: "decode_token a now tok = Inr n \<and> n \<notin> username ` set (users d)"
  proof -
    from h have "find (\<lambda>u. username u = n) (users d) = None"
      by (simp add: find_username_None)
    with h show ?thesis
      by (simp add: get_current_user_def)
  qed
  have malformed: "\<exists>e. get_current_user a now (Malformed raw) d = Inl e \<and> status_code e = 401"
    by (simp add: get_current_user_def decode_token_def)
  have forged: "\<exists>e. get_current_user a now (Signed s ex sg) d = Inl e \<and> status_code e = 401"
    if "sg \<noteq> sign a (SECRET_KEY a) s ex"
    using that by (simp add: get_current_user_def decode_token_def)
  have expired: "\<exists>e. get_current_user a now (Signed s ex sg) d = Inl e \<and> status_code e = 401"
    if "ex < now"
    using that by (simp add: get_current_user_def decode_token_def)
  have missing: "\<exists>e. authenticate a now None d = Inl e \<and> status_code e = 401"
    by (simp add: authenticate_def)
  from failed unknown malformed forged expired missing show ?thesis
    by blast
qed

theorem get_current_user_unauthorized_witness:
  "get_current_user demo_auth 1000 (Signed ''alice'' 999 ''kalice'') demo_db =
     Inl (HTTPException 401 ''Invalid token'') \<and>
   get_current_user demo_auth 1000 (Signed ''alice'' 2800 ''forged'') demo_db =
     Inl (HTTPException 401 ''Invalid token'') \<and>
   get_current_user demo_auth 1000 (Signed ''zoe'' 2800 ''kzoe'') demo_db =
     Inl (HTTPException 401 ''User not found'') \<and>
   get_current_user demo_auth 1000 (Signed ''alice'' 2800 ''kalice'') demo_db = Inr alice"
  using get_current_user_unauthorized
          [of demo_auth 1000 "Signed ''alice'' 999 ''kalice''"
              "HTTPException 401 ''Invalid token''" demo_db "''zoe''" "''x''" "''forged''"
              "''alice''" 999]
        get_current_user_unauthorized
          [of demo_auth 1000 "Signed ''zoe'' 2800 ''kzoe''"
              "HTTPException 401 ''Invalid token''" demo_db "''zoe''" "''x''" "''forged''"
              "''alice''" 2800]
  by (simp add: get_current_user_def decode_token_def demo_auth_def demo_db_def alice_def bob_def)

section \<open>The task store\<close>

text \<open>
  C8. When the caller owns no task with the given id, update and delete both raise
  404 and leave the store as it is; the error is the same whether the id is unknown
  or belongs to a task of another user. When the caller does own such a task neither
  raises. Deleting the same id a second time raises 404.
\<close>

theorem not_found_semantics:
  "(\<not> (\<exists>t\<in>set (todos d). todo_id t = tid \<and> owner_id t = user_id cu) \<longrightarrow>
      update_todo tid u d cu = (Inl (HTTPException 404 ''Todo not found''), d) \<and>
      delete_todo tid d cu = (Inl (HTTPException 404 ''Todo not found''), d)) \<and>
   ((\<exists>t\<in>set (todos d). todo_id t = tid \<and> owner_id t = user_id cu) \<longrightarrow>
      (\<exists>r. fst (update_todo tid u d cu) = Inr r) \<and>
      fst (delete_todo tid d cu) = Inr ''Todo deleted'') \<and>
   fst (delete_todo tid (snd (delete_todo tid d cu)) cu) =
     Inl (HTTPException 404 ''Todo not found'')"
proof -
  let ?P = "\<lambda>t. todo_id t = tid \<and> owner_id t = user_id cu"
  have absent: "update_todo tid u d cu = (Inl (HTTPException 404 ''Todo not found''), d) \<and>
                delete_todo tid d cu = (Inl (HTTPException 404 ''Todo not found''), d)"
    if "\<not> (\<exists>t\<in>set (todos d). ?P t)"
  proof -
    from that have "find ?P (todos d) = None" by (simp add: find_todo_None)
    then show ?thesis by (simp add: update_todo_def delete_todo_def)
  qed
  have present: "(\<exists>r. fst (update_todo tid u d cu) = Inr r) \<and>
                 fst (delete_todo tid d cu) = Inr ''Todo deleted''"
    if "\<exists>t\<in>set (todos d). ?P t"
  proof -
    from that obtain x where "find ?P (todos d) = Some x"
      by (cases "find ?P (todos d)") (auto simp: find_todo_None)
    then show ?thesis by (simp add: update_todo_def delete_todo_def Let_def)
  qed
  have again: "fst (delete_todo tid (snd (delete_todo tid d cu)) cu) =
                 Inl (HTTPException 404 ''Todo not found'')"
  proof (cases "find ?P (todos d)")
    case None
    then show ?thesis by (simp add: delete_todo_def)
  next
    case (Some x)
    then have "todo_id x = tid" by (auto dest: find_todo_Some)
    then have "find ?P (filter (\<lambda>t. todo_id t \<noteq> todo_id x) (todos d)) = None"
      by (simp add: find_todo_None)
    with Some show ?thesis by (simp add: delete_todo_def)
  qed
  from absent present again show ?thesis by blast
qed

theorem not_found_semantics_witness:
  "update_todo 7 \<lparr>tu_title = Some ''x'', tu_description = None, tu_completed = None\<rparr> demo_db alice =
     (Inl (HTTPException 404 ''Todo not found''), demo_db) \<and>
   delete_todo 1 demo_db bob = (Inl (HTTPException 404 ''Todo not found''), demo_db) \<and>
   fst (delete_todo 1 demo_db alice) = Inr ''Todo deleted'' \<and>
   fst (delete_todo 1 (snd (delete_todo 1 demo_db alice)) alice) =
     Inl (HTTPException 404 ''Todo not found'')"
  using not_found_semantics
          [of demo_db 7 alice "\<lparr>tu_title = Some ''x'', tu_description = None, tu_completed = None\<rparr>"]
        not_found_semantics
          [of demo_db 1 bob "\<lparr>tu_title = Some ''x'', tu_description = None, tu_completed = None\<rparr>"]
        not_found_semantics
          [of demo_db 1 alice "\<lparr>tu_title = Some ''x'', tu_description = None, tu_completed = None\<rparr>"]
  by (simp add: demo_db_def alice_def bob_def milk_def)

text \<open>
  C10. A 404 of update or delete, like any other failure of the two, returns the store
  unchanged, and a protected request whose authentication fails ends with that error
  and the store unchanged, on every protected route.
\<close>

theorem failure_leaves_store:
  "(fst (update_todo tid u d cu) = Inl e \<longrightarrow>
      e = HTTPException 404 ''Todo not found'' \<and> snd (update_todo tid u d cu) = d) \<and>
   (fst (delete_todo tid d cu) = Inl e \<longrightarrow>
      e = HTTPException 404 ''Todo not found'' \<and> snd (delete_todo tid d cu) = d) \<and>
   (authenticate a now credentials d = Inl e' \<longrightarrow>
      route_create_todo a now credentials cbody d = (Inl e', d) \<and>
      route_get_todos a now credentials d = (Inl e', d) \<and>
      route_update_todo a now credentials tid ubody d = (Inl e', d) \<and>
      route_delete_todo a now credentials tid d = (Inl e', d))"
proof -
  have upd: "e = HTTPException 404 ''Todo not found'' \<and> snd (update_todo tid u d cu) = d"
    if "fst (update_todo tid u d cu) = Inl e"
    using that by (auto simp: update_todo_def Let_def split: option.splits)
  have del: "e = HTTPException 404 ''Todo not found'' \<and> snd (delete_todo tid d cu) = d"
    if "fst (delete_todo tid d cu) = Inl e"
    using that by (auto simp: delete_todo_def split: option.splits)
  have auth: "route_create_todo a now credentials cbody d = (Inl e', d) \<and>
              route_get_todos a now credentials d = (Inl e', d) \<and>
              route_update_todo a now credentials tid ubody d = (Inl e', d) \<and>
              route_delete_todo a now credentials tid d = (Inl e', d)"
    if "authenticate a now credentials d = Inl e'"
    using that
    by (simp add: route_create_todo_def route_get_todos_def route_update_todo_def
          route_delete_todo_def)
  from upd del auth show ?thesis by blast
qed

theorem failure_leaves_store_witness:
  "snd (update_todo 1 \<lparr>tu_title = Some ''x'', tu_description = None, tu_completed = None\<rparr>
         demo_db bob) = demo_db \<and>
   snd (delete_todo 1 demo_db bob) = demo_db \<and>
   route_delete_todo demo_auth 1000 (Some (Signed ''alice'' 999 ''kalice'')) 1 demo_db =
     (Inl (HTTPException 401 ''Invalid token''), demo_db) \<and>
   route_create_todo demo_auth 1000 None
     \<lparr>cb_title = Given ''t'', cb_description = Absent, cb_extra = []\<rparr> demo_db =
     (Inl (HTTPException 401 ''Not authenticated''), demo_db)"
proof -
  let ?u = "\<lparr>tu_title = Some ''x'', tu_description = None, tu_completed = None\<rparr>"
  let ?e = "HTTPException 404 ''Todo not found''"
  have u: "fst (update_todo 1 ?u demo_db bob) = Inl ?e"
    and dl: "fst (delete_todo 1 demo_db bob) = Inl ?e"
    by (simp_all add: update_todo_def delete_todo_def demo_db_def bob_def milk_def)
  have exp: "authenticate demo_auth 1000 (Some (Signed ''alice'' 999 ''kalice'')) demo_db =
               Inl (HTTPException 401 ''Invalid token'')"
    by (simp add: authenticate_def get_current_user_def decode_token_def demo_auth_def)
  have non: "authenticate demo_auth 1000 None demo_db = Inl (HTTPException 401 ''Not authenticated'')"
    by (simp add: authenticate_def)
  from failure_leaves_store [of 1 ?u demo_db bob ?e demo_auth 1000
         "Some (Signed ''alice'' 999 ''kalice'')" "HTTPException 401 ''Invalid token''"] u dl exp
       failure_leaves_store [of 1 ?u demo_db bob ?e demo_auth 1000
         None "HTTPException 401 ''Not authenticated''"
         "\<lparr>cb_title = Given ''t'', cb_description = Absent, cb_extra = []\<rparr>"] non
  show ?thesis by blast
qed

text \<open>
  C1. In a store whose task ids are pairwise distinct, a task owned by user A is not in
  the list of another user B, update and delete of its id by B raise 404 and change
  nothing, and no update or delete by B, with whatever id, touches it. A successful
  update or delete has found a row that matches both the id and the caller as owner.
\<close>

theorem per_user_isolation:
  assumes "wf_db d" and "t \<in> set (todos d)"
    and "owner_id t = user_id A" and "user_id B \<noteq> user_id A"
  shows "t \<notin> set (get_todos d B) \<and>
         (\<forall>x\<in>set (get_todos d B). owner_id x = user_id B) \<and>
         update_todo (todo_id t) u d B = (Inl (HTTPException 404 ''Todo not found''), d) \<and>
         delete_todo (todo_id t) d B = (Inl (HTTPException 404 ''Todo not found''), d) \<and>
         t \<in> set (todos (snd (update_todo tid u d B))) \<and>
         t \<in> set (todos (snd (delete_todo tid d B))) \<and>
         (fst (update_todo tid u d B) = Inr r \<longrightarrow>
            todo_id r = tid \<and> owner_id r = user_id B \<and>
            (\<exists>x\<in>set (todos d). todo_id x = tid \<and> owner_id x = user_id B)) \<and>
         (fst (delete_todo tid d B) = Inr m \<longrightarrow>
            (\<exists>x\<in>set (todos d). todo_id x = tid \<and> owner_id x = user_id B))"
proof -
  from assms(1) have dist: "distinct (map todo_id (todos d))"
    by (simp add: wf_db_def)
  have other: "todo_id x \<noteq> todo_id t" if "x \<in> set (todos d)" "owner_id x = user_id B" for x
  proof
    assume "todo_id x = todo_id t"
    with dist that(1) assms(2) have "x = t" by (rule todo_id_unique)
    with that(2) assms(3,4) show False by simp
  qed
  have listed: "t \<notin> set (get_todos d B) \<and> (\<forall>x\<in>set (get_todos d B). owner_id x = user_id B)"
    using assms(3,4) by (simp add: get_todos_def)
  have "find (\<lambda>x. todo_id x = todo_id t \<and> owner_id x = user_id B) (todos d) = None"
    using other by (auto simp: find_todo_None)
  then have refused:
    "update_todo (todo_id t) u d B = (Inl (HTTPException 404 ''Todo not found''), d) \<and>
     delete_todo (todo_id t) d B = (Inl (HTTPException 404 ''Todo not found''), d)"
    by (simp add: update_todo_def delete_todo_def)
  have untouched: "t \<in> set (todos (snd (update_todo tid u d B))) \<and>
                   t \<in> set (todos (snd (delete_todo tid d B)))"
  proof (cases "find (\<lambda>x. todo_id x = tid \<and> owner_id x = user_id B) (todos d)")
    case None
    with assms(2) show ?thesis by (simp add: update_todo_def delete_todo_def)
  next
    case (Some x)
    then have "x \<in> set (todos d)" "owner_id x = user_id B"
      by (auto dest: find_todo_Some)
    then have ne: "todo_id t \<noteq> todo_id x" using other by fastforce
    then have "(\<lambda>y. if todo_id y = todo_id x then apply_update u y else y) t = t"
      by simp
    with assms(2)
    have "t \<in> (\<lambda>y. if todo_id y = todo_id x then apply_update u y else y) ` set (todos d)"
      by (rule_tac x = t in image_eqI) simp_all
    with Some ne assms(2) show ?thesis
      by (simp add: update_todo_def delete_todo_def Let_def)
  qed
  have joint_update: "todo_id r = tid \<and> owner_id r = user_id B \<and>
          (\<exists>x\<in>set (todos d). todo_id x = tid \<and> owner_id x = user_id B)"
    if "fst (update_todo tid u d B) = Inr r"
    using that
    by (auto simp: update_todo_def Let_def apply_update_keys split: option.splits
             dest: find_todo_Some)
  have joint_delete: "\<exists>x\<in>set (todos d). todo_id x = tid \<and> owner_id x = user_id B"
    if "fst (delete_todo tid d B) = Inr m"
    using that
    by (auto simp: delete_todo_def split: option.splits dest: find_todo_Some)
  from listed refused untouched joint_update joint_delete show ?thesis
    by blast
qed

theorem per_user_isolation_witness:
  "milk \<notin> set (get_todos demo_db bob) \<and>
   update_todo 1 \<lparr>tu_title = Some ''x'', tu_description = None, tu_completed = None\<rparr> demo_db bob =
     (Inl (HTTPException 404 ''Todo not found''), demo_db) \<and>
   delete_todo 1 demo_db bob = (Inl (HTTPException 404 ''Todo not found''), demo_db) \<and>
   get_todos demo_db alice = [milk]"
proof -
  have own: "milk \<in> set (todos demo_db)" "owner_id milk = user_id alice"
    "user_id bob \<noteq> user_id alice" "todo_id milk = 1"
    by (simp_all add: demo_db_def milk_def alice_def bob_def)
  have mine: "get_todos demo_db alice = [milk]"
    by (simp add: get_todos_def demo_db_def milk_def alice_def)
  from per_user_isolation [OF wf_db_demo own(1,2,3),
         of "\<lparr>tu_title = Some ''x'', tu_description = None, tu_completed = None\<rparr>"] mine own(4)
  show ?thesis by simp
qed

text \<open>
  C6. The task made by \<open>create_todo\<close> is stored with the id of the authenticated
  caller as its owner, whatever the body holds: the validated body has a title and a
  description only, and further keys of the request (an owner id among them) do not
  reach the handler.
\<close>

theorem create_owner_is_caller:
  "owner_id (fst (create_todo t d cu)) = user_id cu \<and>
   todos (snd (create_todo t d cu)) = todos d @ [fst (create_todo t d cu)] \<and>
   (route_create_todo a now credentials body d = (Inr r, d') \<longrightarrow>
      (\<exists>caller. authenticate a now credentials d = Inr caller \<and> owner_id r = user_id caller)) \<and>
   route_create_todo a now credentials (body\<lparr>cb_extra := ex\<rparr>) d =
     route_create_todo a now credentials body d"
proof -
  have stored: "owner_id (fst (create_todo t d cu)) = user_id cu \<and>
                todos (snd (create_todo t d cu)) = todos d @ [fst (create_todo t d cu)]"
    by (simp add: create_todo_def Let_def)
  have routed: "\<exists>caller. authenticate a now credentials d = Inr caller \<and>
                  owner_id r = user_id caller"
    if "route_create_todo a now credentials body d = (Inr r, d')"
    using that
    by (auto simp: route_create_todo_def create_todo_def Let_def split: sum.splits)
  have extras: "route_create_todo a now credentials (body\<lparr>cb_extra := ex\<rparr>) d =
                route_create_todo a now credentials body d"
  proof -
    have "validate_TodoCreate (body\<lparr>cb_extra := ex\<rparr>) = validate_TodoCreate body"
      by (simp add: validate_TodoCreate_def split: sum.splits)
    then show ?thesis
      by (simp only: route_create_todo_def)
  qed
  from stored routed extras show ?thesis by blast
qed

theorem create_owner_is_caller_witness:
  "route_create_todo demo_auth 1000 (Some (Signed ''bob'' 2800 ''kbob''))
     \<lparr>cb_title = Given ''Pay rent'', cb_description = Null, cb_extra = [(''owner_id'', ''1'')]\<rparr>
     demo_db =
     (Inr \<lparr>todo_id = 2, title = ''Pay rent'', description = None, completed = False,
           owner_id = 2\<rparr>,
      demo_db\<lparr>todos := [milk, \<lparr>todo_id = 2, title = ''Pay rent'', description = None,
                                completed = False, owner_id = 2\<rparr>]\<rparr>) \<and>
   authenticate demo_auth 1000 (Some (Signed ''bob'' 2800 ''kbob'')) demo_db = Inr bob"
proof -
  let ?cred = "Some (Signed ''bob'' 2800 ''kbob'')"
  let ?body = "\<lparr>cb_title = Given ''Pay rent'', cb_description = Null,
                cb_extra = [(''owner_id'', ''1'')]\<rparr>"
  let ?r = "\<lparr>todo_id = 2, title = ''Pay rent'', description = None, completed = False,
             owner_id = 2\<rparr>"
  have au: "authenticate demo_auth 1000 ?cred demo_db = Inr bob"
    by (simp add: authenticate_def get_current_user_def decode_token_def demo_auth_def
          demo_db_def alice_def bob_def)
  have run: "route_create_todo demo_auth 1000 ?cred ?body demo_db =
               (Inr ?r, demo_db\<lparr>todos := [milk, ?r]\<rparr>)"
    unfolding route_create_todo_def au
    by (simp add: validate_TodoCreate_def create_todo_def Let_def next_id_def demo_db_def
          milk_def bob_def)
  from create_owner_is_caller [of "\<lparr>tc_title = ''Pay rent'', tc_description = None\<rparr>" demo_db bob
         demo_auth 1000 ?cred ?body ?r "demo_db\<lparr>todos := [milk, ?r]\<rparr>" "[]"] run au
  show ?thesis by simp
qed

text \<open>
  C2. For a task the caller owns, update returns the task with every field whose key
  carries a value replaced by that value and every other field as it was; id and owner
  stay, and the other rows of the table stay. A key sent as null validates to the same
  update as a key left out, so a stored description is never cleared. The body
  \<^verbatim>\<open>{completed: true}\<close> changes the completed flag alone.
\<close>

theorem update_frame:
  assumes "wf_db d" and "t \<in> set (todos d)" and "todo_id t = tid" and "owner_id t = user_id cu"
  shows "(\<exists>t'. t' = t\<lparr>title := (case ub_title body of Given x \<Rightarrow> x | Absent \<Rightarrow> title t
                                   | Null \<Rightarrow> title t),
                       description := (case ub_description body of Given x \<Rightarrow> Some x
                                   | Absent \<Rightarrow> description t | Null \<Rightarrow> description t),
                       completed := (case ub_completed body of Given x \<Rightarrow> x
                                   | Absent \<Rightarrow> completed t | Null \<Rightarrow> completed t)\<rparr> \<and>
               update_todo tid (validate_TodoUpdate body) d cu =
                 (Inr t', d\<lparr>todos := map (\<lambda>r. if todo_id r = tid then t' else r) (todos d)\<rparr>) \<and>
               todo_id t' = todo_id t \<and> owner_id t' = owner_id t \<and>
               (description t' = None \<longrightarrow> description t = None)) \<and>
         validate_TodoUpdate (body\<lparr>ub_title := Null\<rparr>) =
           validate_TodoUpdate (body\<lparr>ub_title := Absent\<rparr>) \<and>
         validate_TodoUpdate (body\<lparr>ub_description := Null\<rparr>) =
           validate_TodoUpdate (body\<lparr>ub_description := Absent\<rparr>) \<and>
         validate_TodoUpdate (body\<lparr>ub_completed := Null\<rparr>) =
           validate_TodoUpdate (body\<lparr>ub_completed := Absent\<rparr>) \<and>
         update_todo tid
           (validate_TodoUpdate \<lparr>ub_title = Absent, ub_description = Absent,
                                 ub_completed = Given True, ub_extra = []\<rparr>) d cu =
           (Inr (t\<lparr>completed := True\<rparr>),
            d\<lparr>todos := map (\<lambda>r. if todo_id r = tid then t\<lparr>completed := True\<rparr> else r)
                             (todos d)\<rparr>)"
proof -
  let ?u = "validate_TodoUpdate body"
  let ?t' = "apply_update ?u t"
  have fields: "?t' =
      t\<lparr>title := (case ub_title body of Given x \<Rightarrow> x | Absent \<Rightarrow> title t | Null \<Rightarrow> title t),
        description := (case ub_description body of Given x \<Rightarrow> Some x
                          | Absent \<Rightarrow> description t | Null \<Rightarrow> description t),
        completed := (case ub_completed body of Given x \<Rightarrow> x
                          | Absent \<Rightarrow> completed t | Null \<Rightarrow> completed t)\<rparr>"
    by (simp add: apply_update_fields validate_TodoUpdate_def optional_field_case)
  have run: "update_todo tid ?u d cu =
      (Inr ?t', d\<lparr>todos := map (\<lambda>r. if todo_id r = tid then ?t' else r) (todos d)\<rparr>)"
    using assms by (rule update_todo_owned)
  have kept: "description ?t' = None \<longrightarrow> description t = None"
    by (simp add: fields split: field.splits)
  have general: "\<exists>t'. t' = t\<lparr>title := (case ub_title body of Given x \<Rightarrow> x | Absent \<Rightarrow> title t
                                   | Null \<Rightarrow> title t),
                       description := (case ub_description body of Given x \<Rightarrow> Some x
                                   | Absent \<Rightarrow> description t | Null \<Rightarrow> description t),
                       completed := (case ub_completed body of Given x \<Rightarrow> x
                                   | Absent \<Rightarrow> completed t | Null \<Rightarrow> completed t)\<rparr> \<and>
               update_todo tid (validate_TodoUpdate body) d cu =
                 (Inr t', d\<lparr>todos := map (\<lambda>r. if todo_id r = tid then t' else r) (todos d)\<rparr>) \<and>
               todo_id t' = todo_id t \<and> owner_id t' = owner_id t \<and>
               (description t' = None \<longrightarrow> description t = None)"
  proof (intro exI [of _ ?t'] conjI)
    show "?t' = t\<lparr>title := (case ub_title body of Given x \<Rightarrow> x | Absent \<Rightarrow> title t
                                   | Null \<Rightarrow> title t),
                       description := (case ub_description body of Given x \<Rightarrow> Some x
                                   | Absent \<Rightarrow> description t | Null \<Rightarrow> description t),
                       completed := (case ub_completed body of Given x \<Rightarrow> x
                                   | Absent \<Rightarrow> completed t | Null \<Rightarrow> completed t)\<rparr>"
      by (rule fields)
    show "update_todo tid ?u d cu =
      (Inr ?t', d\<lparr>todos := map (\<lambda>r. if todo_id r = tid then ?t' else r) (todos d)\<rparr>)"
      by (rule run)
    show "todo_id ?t' = todo_id t" and "owner_id ?t' = owner_id t"
      by (rule apply_update_keys)+
    show "description ?t' = None \<longrightarrow> description t = None"
      by (rule kept)
  qed
  have nulls:
    "validate_TodoUpdate (body\<lparr>ub_title := Null\<rparr>) =
       validate_TodoUpdate (body\<lparr>ub_title := Absent\<rparr>)"
    "validate_TodoUpdate (body\<lparr>ub_description := Null\<rparr>) =
       validate_TodoUpdate (body\<lparr>ub_description := Absent\<rparr>)"
    "validate_TodoUpdate (body\<lparr>ub_completed := Null\<rparr>) =
       validate_TodoUpdate (body\<lparr>ub_completed := Absent\<rparr>)"
    by (simp_all add: validate_TodoUpdate_def)
  let ?c = "validate_TodoUpdate \<lparr>ub_title = Absent, ub_description = Absent,
                                  ub_completed = Given True, ub_extra = []\<rparr>"
  have "apply_update ?c t = t\<lparr>completed := True\<rparr>"
    by (simp add: apply_update_fields validate_TodoUpdate_def)
  with update_todo_owned [OF assms, of ?c]
  have flag: "update_todo tid ?c d cu =
      (Inr (t\<lparr>completed := True\<rparr>),
       d\<lparr>todos := map (\<lambda>r. if todo_id r = tid then t\<lparr>completed := True\<rparr> else r) (todos d)\<rparr>)"
    by simp
  from general nulls flag show ?thesis
    by (intro conjI)
qed

theorem update_frame_witness:
  "update_todo 1
     (validate_TodoUpdate \<lparr>ub_title = Absent, ub_description = Null, ub_completed = Given True,
                           ub_extra = []\<rparr>) demo_db alice =
     (Inr \<lparr>todo_id = 1, title = ''Buy milk'', description = Some ''2 litres'',
           completed = True, owner_id = 1\<rparr>,
      \<lparr>users = [alice, bob],
       todos = [\<lparr>todo_id = 1, title = ''Buy milk'', description = Some ''2 litres'',
                 completed = True, owner_id = 1\<rparr>]\<rparr>)"
proof -
  have own: "milk \<in> set (todos demo_db)" "todo_id milk = 1" "owner_id milk = user_id alice"
    by (simp_all add: demo_db_def milk_def alice_def)
  from update_frame [OF wf_db_demo own,
         of "\<lparr>ub_title = Absent, ub_description = Null, ub_completed = Given True,
              ub_extra = []\<rparr>"]
  show ?thesis
    by (simp add: demo_db_def milk_def)
qed

text \<open>
  C3 as the specification words it does not hold: the schema declares the title as a
  plain string, so a request whose title is the empty string passes validation and a
  task with the empty title is stored.
\<close>

theorem create_empty_title_counterexample:
  "route_create_todo demo_auth 1000 (Some (Signed ''alice'' 2800 ''kalice''))
     \<lparr>cb_title = Given '''', cb_description = Absent, cb_extra = []\<rparr> demo_db =
     (Inr \<lparr>todo_id = 2, title = '''', description = None, completed = False, owner_id = 1\<rparr>,
      \<lparr>users = [alice, bob],
       todos = [milk, \<lparr>todo_id = 2, title = '''', description = None, completed = False,
                       owner_id = 1\<rparr>]\<rparr>)"
proof -
  have au: "authenticate demo_auth 1000 (Some (Signed ''alice'' 2800 ''kalice'')) demo_db =
              Inr alice"
    by (simp add: authenticate_def get_current_user_def decode_token_def demo_auth_def
          demo_db_def alice_def bob_def)
  show ?thesis
    unfolding route_create_todo_def au
    by (simp add: validate_TodoCreate_def create_todo_def Let_def next_id_def demo_db_def
          milk_def alice_def)
qed

text \<open>
  C3, amended. Creating a task requires a title: for an authenticated caller, a request
  whose title is absent or null is rejected by the validation of the body and the store
  is unchanged; a request whose title is any string, the empty one included, is
  accepted, and the task appended to the table has exactly that title and is not
  completed.
\<close>

theorem create_requires_title:
  assumes "authenticate a now credentials d = Inr cu"
  shows "(cb_title body = Absent \<or> cb_title body = Null \<longrightarrow>
            route_create_todo a now credentials body d = (Inl RequestValidationError, d)) \<and>
         (cb_title body = Given s \<longrightarrow>
            (\<exists>t. route_create_todo a now credentials body d =
                    (Inr t, d\<lparr>todos := todos d @ [t]\<rparr>) \<and>
                 title t = s \<and> completed t = False \<and> owner_id t = user_id cu))"
proof -
  have rejected: "route_create_todo a now credentials body d = (Inl RequestValidationError, d)"
    if "cb_title body = Absent \<or> cb_title body = Null"
    using that assms by (auto simp: route_create_todo_def validate_TodoCreate_def)
  have accepted: "\<exists>t. route_create_todo a now credentials body d =
                        (Inr t, d\<lparr>todos := todos d @ [t]\<rparr>) \<and>
                     title t = s \<and> completed t = False \<and> owner_id t = user_id cu"
    if "cb_title body = Given s"
    using that assms
    by (simp add: route_create_todo_def validate_TodoCreate_def create_todo_def Let_def)
  from rejected accepted show ?thesis by blast
qed

theorem create_requires_title_witness:
  "route_create_todo demo_auth 1000 (Some (Signed ''alice'' 2800 ''kalice''))
     \<lparr>cb_title = Absent, cb_description = Given ''no title'', cb_extra = []\<rparr> demo_db =
     (Inl RequestValidationError, demo_db) \<and>
   route_create_todo demo_auth 1000 (Some (Signed ''alice'' 2800 ''kalice''))
     \<lparr>cb_title = Null, cb_description = Absent, cb_extra = []\<rparr> demo_db =
     (Inl RequestValidationError, demo_db) \<and>
   (\<exists>t. route_create_todo demo_auth 1000 (Some (Signed ''alice'' 2800 ''kalice''))
           \<lparr>cb_title = Given ''Walk'', cb_description = Absent, cb_extra = []\<rparr> demo_db =
           (Inr t, demo_db\<lparr>todos := todos demo_db @ [t]\<rparr>) \<and> title t = ''Walk'')"
proof -
  have au: "authenticate demo_auth 1000 (Some (Signed ''alice'' 2800 ''kalice'')) demo_db =
              Inr alice"
    by (simp add: authenticate_def get_current_user_def decode_token_def demo_auth_def
          demo_db_def alice_def bob_def)
  from create_requires_title [OF au,
         of "\<lparr>cb_title = Absent, cb_description = Given ''no title'', cb_extra = []\<rparr>" "''x''"]
       create_requires_title [OF au,
         of "\<lparr>cb_title = Null, cb_description = Absent, cb_extra = []\<rparr>" "''x''"]
       create_requires_title [OF au,
         of "\<lparr>cb_title = Given ''Walk'', cb_description = Absent, cb_extra = []\<rparr>" "''Walk''"]
  show ?thesis by auto
qed

end
